theory Spec2Isabelle
  imports Complex_Main
begin

section \<open>The script \<open>cfd_remesh_temp.py\<close>\<close>

text \<open>
  The script is one straight-line program: it derives two output file names from its two
  arguments, loads both CSV files with \<open>np.genfromtxt\<close>, takes columns of the two arrays,
  calls \<open>griddata(..., method='nearest')\<close> and writes two files with \<open>np.savetxt\<close>.

  What the model keeps and what it leaves out:
  \<^item> A file is a table: a list of lines, each line the list of its comma-separated fields
    (a blank line is the empty list). A field is either a floating-point literal, given by
    the number it denotes, or any other text. The grammar of Python's \<open>float()\<close> and the
    text that \<open>'%s'\<close> produces for a number are not modelled; an output file is a table of
    numbers under an optional header line.
  \<^item> A \<open>float64\<close> is a real number or nan; rounding and infinities are left out.
  \<^item> The progress lines that carry a time stamp are left out of the console output.
  \<^item> Every destination is writable.
\<close>

subsection \<open>Data\<close>

datatype exn = IOError | ValueError | IndexError

datatype csv_field = Lit real | Text string

type_synonym table = "csv_field list list"

datatype float64 = Num real | NaN

text \<open>A numpy array of rank 0, 1 or 2 (a rank-2 array as the list of its rows).\<close>

datatype ndarray = Arr0 float64 | Arr1 "float64 list" | Arr2 "float64 list list"

text \<open>What \<open>np.savetxt\<close> leaves in a file: the header line, when one is given, and the rows.\<close>

record artifact =
  header :: "string option"
  rows :: "float64 list list"

text \<open>How the process ends: \<open>exit()\<close> gives status 0, an uncaught exception a traceback.\<close>

datatype status = Exited nat | Raised exn

record outcome =
  status :: status
  stdout :: "string list"
  opened :: "string list"
  saved :: "(string \<times> artifact) list"

subsection \<open>File names (lines 84 to 89)\<close>

text \<open>\<open>s.split(sep)\<close> for a one-character separator: never the empty list.\<close>

fun str_split :: "char \<Rightarrow> string \<Rightarrow> string list" where
  "str_split sep [] = [[]]"
| "str_split sep (c # cs) =
     (if c = sep then [] # str_split sep cs
      else (c # hd (str_split sep cs)) # tl (str_split sep cs))"

definition filename3 :: "string \<Rightarrow> string \<Rightarrow> string" where
  "filename3 filename1 filename2 =
     (let basename1 = str_split (CHR ''.'') filename1;
          basename2 = str_split (CHR ''.'') filename2
      in hd basename1 @ ''_'' @ hd basename2 @ ''_output_with_coordinates.csv'')"

definition filename4 :: "string \<Rightarrow> string \<Rightarrow> string" where
  "filename4 filename1 filename2 =
     (let basename1 = str_split (CHR ''.'') filename1;
          basename2 = str_split (CHR ''.'') filename2
      in hd basename1 @ ''_'' @ hd basename2 @ ''_output_single_column.csv'')"

text \<open>The text before the first dot, in the words of the specification.\<close>

definition before_first_dot :: "string \<Rightarrow> string" where
  "before_first_dot s = takeWhile (\<lambda>c. c \<noteq> CHR ''.'') s"

subsection \<open>\<open>np.genfromtxt(fname, delimiter=",", skip_header=k)\<close>\<close>

text \<open>
  The library call, as numpy documents and implements it for the default \<open>dtype=float\<close>:
  the first \<open>k\<close> lines are dropped, blank lines are passed over, the first remaining line
  fixes the number of columns and a line with another number of fields raises
  \<open>ValueError\<close>; a field that \<open>float()\<close> rejects becomes nan (the conversion is loose);
  the result is squeezed, so that a file with a single data row gives a rank-1 array and
  a file with no data row gives the empty rank-1 array. A file that does not exist raises
  \<open>IOError\<close>.
\<close>

fun to_float :: "csv_field \<Rightarrow> float64" where
  "to_float (Lit r) = Num r"
| "to_float (Text s) = NaN"

fun squeeze :: "float64 list list \<Rightarrow> ndarray" where
  "squeeze [] = Arr1 []"
| "squeeze [[v]] = Arr0 v"
| "squeeze [r] = Arr1 r"
| "squeeze rs = (if list_all (\<lambda>r. length r = 1) rs then Arr1 (map hd rs) else Arr2 rs)"

definition data_lines :: "nat \<Rightarrow> table \<Rightarrow> table" where
  "data_lines skip_header t = filter (\<lambda>r. r \<noteq> []) (drop skip_header t)"

definition ragged :: "table \<Rightarrow> bool" where
  "ragged rs = (\<not> list_all (\<lambda>r. length r = length (hd rs)) rs)"

definition genfromtxt :: "(string \<Rightarrow> table option) \<Rightarrow> string \<Rightarrow> nat \<Rightarrow> exn + ndarray" where
  "genfromtxt fs fname skip_header =
     (case fs fname of
        None \<Rightarrow> Inl IOError
      | Some t \<Rightarrow>
          (let rs = data_lines skip_header t
           in if ragged rs then Inl ValueError
              else Inr (squeeze (map (map to_float) rs))))"

text \<open>
  The slice \<open>a[:,k]\<close>: a column of a rank-2 array; \<open>IndexError\<close> on an array of lower
  rank (too many indices) and on a column that is not there.
\<close>

fun column :: "ndarray \<Rightarrow> nat \<Rightarrow> exn + float64 list" where
  "column (Arr2 rs) k =
     (if list_all (\<lambda>r. k < length r) rs then Inr (map (\<lambda>r. r ! k) rs) else Inl IndexError)"
| "column (Arr1 v) k = Inl IndexError"
| "column (Arr0 v) k = Inl IndexError"

subsection \<open>\<open>griddata(points, values, xi, method='nearest')\<close>\<close>

definition distance :: "real \<times> real \<Rightarrow> real \<times> real \<Rightarrow> real" where
  "distance q s = sqrt ((fst q - fst s)\<^sup>2 + (snd q - snd s)\<^sup>2)"

text \<open>
  Modelled from the spec: \<open>scipy.interpolate.griddata\<close> is not part of the repository.
  Section 4.2 asks for the value of the source point at the least 2D Euclidean distance
  from the query point and allows a brute-force scan, any of several equidistant points
  being acceptable: \<open>nearest_from\<close> scans the source points once and keeps the first of the
  closest ones.
\<close>

fun nearest_from ::
  "real \<times> real \<Rightarrow> (real \<times> real) \<times> float64 \<Rightarrow> ((real \<times> real) \<times> float64) list
     \<Rightarrow> (real \<times> real) \<times> float64" where
  "nearest_from q best [] = best"
| "nearest_from q best (s # ss) =
     nearest_from q (if distance q (fst s) < distance q (fst best) then s else best) ss"

fun reals :: "float64 list \<Rightarrow> real list option" where
  "reals [] = Some []"
| "reals (NaN # vs) = None"
| "reals (Num r # vs) = (case reals vs of None \<Rightarrow> None | Some rs \<Rightarrow> Some (r # rs))"

text \<open>
  Modelled from the spec: the resampler of section 4.2, one value for each query point, in
  the order of the query points. The spec has no rule for an empty source or for a
  coordinate that is not a number; the model raises \<open>ValueError\<close> there.
\<close>

definition griddata_nearest ::
  "float64 list \<times> float64 list \<Rightarrow> float64 list \<Rightarrow> float64 list \<times> float64 list
     \<Rightarrow> exn + float64 list" where
  "griddata_nearest points values xi =
     (case (reals (fst points), reals (snd points), reals (fst xi), reals (snd xi)) of
        (Some x, Some y, Some qx, Some qy) \<Rightarrow>
          (case zip (zip x y) values of
             [] \<Rightarrow> Inl ValueError
           | s # ss \<Rightarrow> Inr (map (\<lambda>q. snd (nearest_from q s ss)) (zip qx qy)))
      | _ \<Rightarrow> Inl ValueError)"

subsection \<open>The program\<close>

text \<open>Lines 100 to 112: the source table, its first line skipped, and three of its columns.\<close>

definition load_source ::
  "(string \<Rightarrow> table option) \<Rightarrow> string
     \<Rightarrow> exn + (float64 list \<times> float64 list \<times> float64 list)" where
  "load_source fs filename1 =
     (case genfromtxt fs filename1 1 of
        Inl e \<Rightarrow> Inl e
      | Inr data \<Rightarrow>
     (case column data 1 of
        Inl e \<Rightarrow> Inl e
      | Inr x \<Rightarrow>
     (case column data 2 of
        Inl e \<Rightarrow> Inl e
      | Inr y \<Rightarrow>
     (case column data 0 of
        Inl e \<Rightarrow> Inl e
      | Inr temp1 \<Rightarrow> Inr (x, y, temp1)))))"

text \<open>Lines 122 to 129: the query table, no line skipped, and its first three columns.\<close>

definition load_grid ::
  "(string \<Rightarrow> table option) \<Rightarrow> string
     \<Rightarrow> exn + (float64 list \<times> float64 list \<times> float64 list)" where
  "load_grid fs filename2 =
     (case genfromtxt fs filename2 0 of
        Inl e \<Rightarrow> Inl e
      | Inr grid \<Rightarrow>
     (case column grid 0 of
        Inl e \<Rightarrow> Inl e
      | Inr xi \<Rightarrow>
     (case column grid 1 of
        Inl e \<Rightarrow> Inl e
      | Inr yi \<Rightarrow>
     (case column grid 2 of
        Inl e \<Rightarrow> Inl e
      | Inr zi \<Rightarrow> Inr (xi, yi, zi)))))"

definition usage :: "string list" where
  "usage = [''This script needs two arguments.'',
            ''Usage: cfd_remesh_temp filename1 filename2'',
            ''Aborting ...'']"

text \<open>Lines 90 to 94; Python 2 \<open>print a, b\<close> puts one space between its items.\<close>

definition banner :: "string \<Rightarrow> string \<Rightarrow> string list" where
  "banner filename1 filename2 =
     [''Filename1 = '' @ '' '' @ filename1,
      ''Filename2 = '' @ '' '' @ filename2,
      ''Output file1 ='' @ '' '' @ filename3 filename1 filename2,
      ''Output file2 ='' @ '' '' @ filename4 filename1 filename2,
      '''']"

text \<open>
  The whole script, on the argument vector \<open>argv\<close> (the script's own name first) and the
  files \<open>fs\<close>. An exception ends the run where it is raised: nothing after it is opened or
  saved.
\<close>

definition cfd_remesh_temp :: "(string \<Rightarrow> table option) \<Rightarrow> string list \<Rightarrow> outcome" where
  "cfd_remesh_temp fs argv =
     (if length argv < 3
      then \<lparr>status = Exited 0, stdout = usage, opened = [], saved = []\<rparr>
      else
        let filename1 = argv ! 1;
            filename2 = argv ! 2;
            out = banner filename1 filename2
        in
        (case load_source fs filename1 of
           Inl e \<Rightarrow> \<lparr>status = Raised e, stdout = out, opened = [filename1], saved = []\<rparr>
         | Inr (x, y, temp1) \<Rightarrow>
        (case load_grid fs filename2 of
           Inl e \<Rightarrow>
             \<lparr>status = Raised e, stdout = out, opened = [filename1, filename2], saved = []\<rparr>
         | Inr (xi, yi, zi) \<Rightarrow>
        (case griddata_nearest (x, y) temp1 (xi, yi) of
           Inl e \<Rightarrow>
             \<lparr>status = Raised e, stdout = out, opened = [filename1, filename2], saved = []\<rparr>
         | Inr temp2 \<Rightarrow>
             \<lparr>status = Exited 0, stdout = out, opened = [filename1, filename2],
              saved =
                [(filename3 filename1 filename2,
                  \<lparr>header = Some ''T,x,y,z'', rows = transpose [temp2, xi, yi, zi]\<rparr>),
                 (filename4 filename1 filename2,
                  \<lparr>header = None, rows = transpose [temp2]\<rparr>)]\<rparr>))))"

subsection \<open>Tables, as the theorems speak of them\<close>

text \<open>Column \<open>k\<close> of a table after conversion, as the slices of the script return it.\<close>

definition col :: "nat \<Rightarrow> table \<Rightarrow> float64 list" where
  "col k rs = map (\<lambda>r. to_float (r ! k)) rs"

text \<open>The data rows for which \<open>a[:,k]\<close> succeeds on the array \<open>genfromtxt\<close> makes of them.\<close>

definition sliceable :: "nat \<Rightarrow> table \<Rightarrow> bool" where
  "sliceable k rs =
     (2 \<le> length rs \<and> \<not> list_all (\<lambda>r. length r = 1) rs \<and> list_all (\<lambda>r. k < length r) rs)"

text \<open>At least two data rows, all as long as the first, and at least three columns.\<close>

definition rectangular :: "table \<Rightarrow> bool" where
  "rectangular rs = (2 \<le> length rs \<and> 3 \<le> length (hd rs) \<and> \<not> ragged rs)"

text \<open>Every row has a number in column \<open>k\<close>.\<close>

definition numeric_at :: "nat \<Rightarrow> table \<Rightarrow> bool" where
  "numeric_at k rs = list_all (\<lambda>r. to_float (r ! k) \<noteq> NaN) rs"

text \<open>
  Two tables that differ at most in the fourth field (the z of a source row) of their
  lines: line by line they agree once that field is overwritten.
\<close>

definition same_but_z :: "table \<Rightarrow> table \<Rightarrow> bool" where
  "same_but_z t t' = list_all2 (\<lambda>r r'. r[3 := Text []] = r'[3 := Text []]) t t'"

subsection \<open>Concrete inputs\<close>

text \<open>
  The tables of the worked example of the specification (section 8), a source table with a
  single data row, one with no data row, and the command line that names them.
\<close>

definition header_only :: table where
  "header_only = [[Text ''T'', Text ''x'', Text ''y'', Text ''z'']]"

definition one_source :: table where
  "one_source = [[Text ''T'', Text ''x'', Text ''y'', Text ''z''], [Lit 5, Lit 0, Lit 0, Lit 0]]"

definition two_sources :: table where
  "two_sources = [[Text ''T'', Text ''x'', Text ''y'', Text ''z''],
                  [Lit 10, Lit 0, Lit 0, Lit 0],
                  [Lit 20, Lit 10, Lit 0, Lit 0]]"

definition two_queries :: table where
  "two_queries = [[Lit 1, Lit 0, Lit 0], [Lit 9, Lit 0, Lit 0]]"

text \<open>A source table with a field that is no number, and one with a short row.\<close>

definition text_in_z :: table where
  "text_in_z = [[Text ''T'', Text ''x'', Text ''y'', Text ''z''],
                [Lit 10, Lit 0, Lit 0, Text ''abc''],
                [Lit 20, Lit 10, Lit 0, Lit 0]]"

definition short_row :: table where
  "short_row = [[Text ''T'', Text ''x'', Text ''y'', Text ''z''],
                [Lit 10, Lit 0, Lit 0, Lit 0],
                [Lit 20, Lit 10, Lit 0]]"

text \<open>The source table of the worked example with other entries for z.\<close>

definition other_z :: table where
  "other_z = [[Text ''T'', Text ''x'', Text ''y'', Text ''z''],
              [Lit 10, Lit 0, Lit 0, Lit 7],
              [Lit 20, Lit 10, Lit 0, Text ''high'']]"

definition disk :: "table \<Rightarrow> table \<Rightarrow> string \<Rightarrow> table option" where
  "disk a b = [''fine.csv'' \<mapsto> a, ''coarse.csv'' \<mapsto> b]"

definition args :: "string list" where
  "args = [''cfd_remesh_temp.py'', ''fine.csv'', ''coarse.csv'']"

section \<open>File names\<close>

lemma hd_str_split: "hd (str_split (CHR ''.'') s) = before_first_dot s"
  by (induction s) (simp_all add: before_first_dot_def)

text \<open>
  C8. The two output paths are the two inputs' texts before their first dot, joined by an
  underscore, followed by \<open>_output_with_coordinates.csv\<close> and \<open>_output_single_column.csv\<close>.
\<close>

theorem output_names_from_basenames:
  "filename3 f1 f2 = before_first_dot f1 @ ''_'' @ before_first_dot f2 @ ''_output_with_coordinates.csv''
   \<and> filename4 f1 f2 = before_first_dot f1 @ ''_'' @ before_first_dot f2 @ ''_output_single_column.csv''"
  by (simp add: filename3_def filename4_def hd_str_split)

section \<open>The four ways a run ends\<close>

lemma run_source_fails:
  "3 \<le> length argv \<Longrightarrow> load_source fs (argv ! 1) = Inl e \<Longrightarrow>
     cfd_remesh_temp fs argv =
       \<lparr>status = Raised e, stdout = banner (argv ! 1) (argv ! 2), opened = [argv ! 1], saved = []\<rparr>"
  by (simp add: cfd_remesh_temp_def Let_def)

lemma run_grid_fails:
  "3 \<le> length argv \<Longrightarrow> load_source fs (argv ! 1) = Inr s \<Longrightarrow>
   load_grid fs (argv ! 2) = Inl e \<Longrightarrow>
     cfd_remesh_temp fs argv =
       \<lparr>status = Raised e, stdout = banner (argv ! 1) (argv ! 2),
        opened = [argv ! 1, argv ! 2], saved = []\<rparr>"
  by (simp add: cfd_remesh_temp_def Let_def split: prod.splits)

lemma run_griddata_fails:
  "3 \<le> length argv \<Longrightarrow> load_source fs (argv ! 1) = Inr (x, y, temp1) \<Longrightarrow>
   load_grid fs (argv ! 2) = Inr (xi, yi, zi) \<Longrightarrow>
   griddata_nearest (x, y) temp1 (xi, yi) = Inl e \<Longrightarrow>
     cfd_remesh_temp fs argv =
       \<lparr>status = Raised e, stdout = banner (argv ! 1) (argv ! 2),
        opened = [argv ! 1, argv ! 2], saved = []\<rparr>"
  by (simp add: cfd_remesh_temp_def Let_def)

lemma run_completes:
  "3 \<le> length argv \<Longrightarrow> load_source fs (argv ! 1) = Inr (x, y, temp1) \<Longrightarrow>
   load_grid fs (argv ! 2) = Inr (xi, yi, zi) \<Longrightarrow>
   griddata_nearest (x, y) temp1 (xi, yi) = Inr temp2 \<Longrightarrow>
     cfd_remesh_temp fs argv =
       \<lparr>status = Exited 0, stdout = banner (argv ! 1) (argv ! 2),
        opened = [argv ! 1, argv ! 2],
        saved = [(filename3 (argv ! 1) (argv ! 2),
                  \<lparr>header = Some ''T,x,y,z'', rows = transpose [temp2, xi, yi, zi]\<rparr>),
                 (filename4 (argv ! 1) (argv ! 2),
                  \<lparr>header = None, rows = transpose [temp2]\<rparr>)]\<rparr>"
  by (simp add: cfd_remesh_temp_def Let_def)

section \<open>The command line\<close>

text \<open>
  C9. With fewer than two arguments after the script's name the program prints the usage
  text and ends with status 0; it opens no input and saves no output.
\<close>

theorem too_few_arguments:
  "length argv < 3 \<Longrightarrow>
     cfd_remesh_temp fs argv = \<lparr>status = Exited 0, stdout = usage, opened = [], saved = []\<rparr>"
  by (simp add: cfd_remesh_temp_def)

theorem too_few_arguments_witness:
  "length [''cfd_remesh_temp.py'', ''fine.csv''] < 3
   \<and> cfd_remesh_temp (disk two_sources two_queries) [''cfd_remesh_temp.py'', ''fine.csv'']
       = \<lparr>status = Exited 0, stdout = usage, opened = [], saved = []\<rparr>"
  using too_few_arguments [of "[''cfd_remesh_temp.py'', ''fine.csv'']" "disk two_sources two_queries"]
  by simp

section \<open>Tables without data rows, tables with one\<close>

lemma load_source_no_rows:
  "fs f = Some t \<Longrightarrow> data_lines 1 t = [] \<Longrightarrow> load_source fs f = Inl IndexError"
  by (simp add: load_source_def genfromtxt_def ragged_def)

lemma load_grid_no_rows:
  "fs f = Some t \<Longrightarrow> data_lines 0 t = [] \<Longrightarrow> load_grid fs f = Inl IndexError"
  by (simp add: load_grid_def genfromtxt_def ragged_def)

lemma load_two_sources:
  "load_source (disk two_sources b) ''fine.csv''
     = Inr ([Num 0, Num 10], [Num 0, Num 0], [Num 10, Num 20])"
  by (simp add: disk_def two_sources_def load_source_def genfromtxt_def data_lines_def ragged_def)

lemma load_two_queries:
  "load_grid (disk a two_queries) ''coarse.csv''
     = Inr ([Num 1, Num 9], [Num 0, Num 0], [Num 0, Num 0])"
  by (simp add: disk_def two_queries_def load_grid_def genfromtxt_def data_lines_def ragged_def)

lemma nearest_two:
  "griddata_nearest ([Num 0, Num 10], [Num 0, Num 0]) [Num 10, Num 20]
       ([Num 1, Num 9], [Num 0, Num 0])
     = Inr [Num 10, Num 20]"
  by (simp add: griddata_nearest_def distance_def)

text \<open>
  C7. A source file with no data row after its header line stops the program before any
  resampling: the slice \<open>data[:,1]\<close> of the empty rank-1 array raises \<open>IndexError\<close>, the
  query file is never opened and nothing is saved. (The script has no exception classes of
  its own; this is the failure the specification calls \<open>EmptyInputError\<close>.)
\<close>

theorem empty_source_fails:
  assumes "3 \<le> length argv" and "fs (argv ! 1) = Some t" and "data_lines 1 t = []"
  shows "status (cfd_remesh_temp fs argv) = Raised IndexError
         \<and> opened (cfd_remesh_temp fs argv) = [argv ! 1]
         \<and> saved (cfd_remesh_temp fs argv) = []"
  using assms by (simp add: run_source_fails load_source_no_rows)

theorem empty_source_fails_witness:
  "3 \<le> length args \<and> disk header_only two_queries (args ! 1) = Some header_only
   \<and> data_lines 1 header_only = []
   \<and> status (cfd_remesh_temp (disk header_only two_queries) args) = Raised IndexError
   \<and> opened (cfd_remesh_temp (disk header_only two_queries) args) = [''fine.csv'']
   \<and> saved (cfd_remesh_temp (disk header_only two_queries) args) = []"
proof -
  have a: "3 \<le> length args" by (simp add: args_def)
  have b: "disk header_only two_queries (args ! 1) = Some header_only"
    by (simp add: args_def disk_def)
  have c: "data_lines 1 header_only = []" by (simp add: data_lines_def header_only_def)
  have d: "args ! 1 = ''fine.csv''" by (simp add: args_def)
  show ?thesis
    using a b c d empty_source_fails [of args "disk header_only two_queries" header_only]
    by simp
qed

text \<open>
  C6, as the specification has it, fails: with the two source rows of the worked example and
  a query file of zero rows the run ends in \<open>IndexError\<close> and saves neither artifact.
\<close>

theorem empty_query_counterexample:
  "status (cfd_remesh_temp (disk two_sources []) args) = Raised IndexError
   \<and> saved (cfd_remesh_temp (disk two_sources []) args) = []"
proof -
  have a: "3 \<le> length args" and b: "args ! Suc 0 = ''fine.csv''" and c: "args ! 2 = ''coarse.csv''"
    by (simp_all add: args_def)
  have "load_grid (disk two_sources []) ''coarse.csv'' = Inl IndexError"
    by (simp add: disk_def load_grid_no_rows data_lines_def)
  then show ?thesis
    using run_grid_fails [of args "disk two_sources []" _ IndexError]
    by (simp add: a b c load_two_sources)
qed

text \<open>
  C6, amended. A query file with no data row makes the program fail and save nothing; when
  the source table has loaded, the failure is the \<open>IndexError\<close> of the slice \<open>grid[:,0]\<close>.
\<close>

theorem empty_query_fails:
  assumes "3 \<le> length argv" and "fs (argv ! 2) = Some q" and "data_lines 0 q = []"
  shows "(\<exists>e. status (cfd_remesh_temp fs argv) = Raised e)
         \<and> saved (cfd_remesh_temp fs argv) = []
         \<and> (\<forall>s. load_source fs (argv ! 1) = Inr s \<longrightarrow>
                status (cfd_remesh_temp fs argv) = Raised IndexError)"
proof (cases "load_source fs (argv ! 1)")
  case (Inl e)
  then show ?thesis using assms(1) by (simp add: run_source_fails)
next
  case (Inr s)
  moreover have "load_grid fs (argv ! 2) = Inl IndexError"
    using assms(2,3) by (rule load_grid_no_rows)
  ultimately show ?thesis using assms(1) by (simp add: run_grid_fails)
qed

theorem empty_query_fails_witness:
  "3 \<le> length args \<and> disk two_sources [] (args ! 2) = Some [] \<and> data_lines 0 [] = []
   \<and> status (cfd_remesh_temp (disk two_sources []) args) = Raised IndexError
   \<and> saved (cfd_remesh_temp (disk two_sources []) args) = []"
proof -
  have a: "3 \<le> length args" and b: "args ! Suc 0 = ''fine.csv''" and c: "args ! 2 = ''coarse.csv''"
    by (simp_all add: args_def)
  have d: "disk two_sources [] (args ! 2) = Some []" by (simp add: c disk_def)
  have e: "data_lines 0 [] = []" by (simp add: data_lines_def)
  show ?thesis
    using empty_query_fails [of args "disk two_sources []" "[]"] a d e
    by (simp add: b load_two_sources)
qed

text \<open>
  C3. The run on a source file with a header line and the single data row \<open>5,0,0,0\<close>:
  \<open>genfromtxt\<close> squeezes the one row to a rank-1 array, \<open>data[:,1]\<close> raises \<open>IndexError\<close>
  and no artifact is saved, where every output row should carry the value 5.
\<close>

theorem single_source_row_raises:
  "status (cfd_remesh_temp (disk one_source two_queries) args) = Raised IndexError
   \<and> saved (cfd_remesh_temp (disk one_source two_queries) args) = []"
proof -
  have a: "3 \<le> length args" and b: "args ! Suc 0 = ''fine.csv''"
    by (simp_all add: args_def)
  have "load_source (disk one_source two_queries) ''fine.csv'' = Inl IndexError"
    by (simp add: disk_def one_source_def load_source_def genfromtxt_def data_lines_def ragged_def)
  then show ?thesis
    using run_source_fails [of args "disk one_source two_queries" IndexError]
    by (simp add: a b)
qed

section \<open>The worked example\<close>

text \<open>
  C4. Source rows \<open>(10,0,0,0)\<close> and \<open>(20,10,0,0)\<close> under a header line, query rows
  \<open>(1,0,0)\<close> and \<open>(9,0,0)\<close>: the first artifact holds the rows \<open>10,1,0,0\<close> and
  \<open>20,9,0,0\<close> under the header \<open>T,x,y,z\<close>, the second the rows \<open>10\<close> and \<open>20\<close>.
\<close>

theorem end_to_end_example:
  "cfd_remesh_temp (disk two_sources two_queries) args =
     \<lparr>status = Exited 0, stdout = banner ''fine.csv'' ''coarse.csv'',
      opened = [''fine.csv'', ''coarse.csv''],
      saved = [(''fine_coarse_output_with_coordinates.csv'',
                \<lparr>header = Some ''T,x,y,z'',
                 rows = [[Num 10, Num 1, Num 0, Num 0], [Num 20, Num 9, Num 0, Num 0]]\<rparr>),
               (''fine_coarse_output_single_column.csv'',
                \<lparr>header = None, rows = [[Num 10], [Num 20]]\<rparr>)]\<rparr>"
proof -
  have a: "3 \<le> length args" and b: "args ! Suc 0 = ''fine.csv''" and c: "args ! 2 = ''coarse.csv''"
    by (simp_all add: args_def)
  have t4: "transpose [[Num 10, Num 20], [Num 1, Num 9], [Num 0, Num 0], [Num 0, Num 0]]
              = [[Num 10, Num 1, Num 0, Num 0], [Num 20, Num 9, Num 0, Num 0]]"
    by code_simp
  have t1: "transpose [[Num 10, Num 20]] = [[Num 10], [Num 20]]"
    by code_simp
  have n3: "filename3 ''fine.csv'' ''coarse.csv'' = ''fine_coarse_output_with_coordinates.csv''"
    by (simp add: filename3_def)
  have n4: "filename4 ''fine.csv'' ''coarse.csv'' = ''fine_coarse_output_single_column.csv''"
    by (simp add: filename4_def)
  show ?thesis
    using run_completes [of args "disk two_sources two_queries"
        "[Num 0, Num 10]" "[Num 0, Num 0]" "[Num 10, Num 20]"
        "[Num 1, Num 9]" "[Num 0, Num 0]" "[Num 0, Num 0]" "[Num 10, Num 20]"]
    by (simp add: a b c load_two_sources load_two_queries nearest_two t4 t1 n3 n4)
qed


section \<open>The resampler\<close>

lemma nearest_from_in: "nearest_from q b ss \<in> set (b # ss)"
  by (induction ss arbitrary: b) auto

lemma nearest_from_le_best: "distance q (fst (nearest_from q b ss)) \<le> distance q (fst b)"
proof (induction ss arbitrary: b)
  case Nil
  show ?case by simp
next
  case (Cons s ss)
  show ?case
    using Cons.IH [of s] Cons.IH [of b] by (simp split: if_splits)
qed

lemma nearest_from_least:
  "t \<in> set (b # ss) \<Longrightarrow> distance q (fst (nearest_from q b ss)) \<le> distance q (fst t)"
proof (induction ss arbitrary: b)
  case Nil
  then show ?case by simp
next
  case (Cons s ss)
  let ?b' = "if distance q (fst s) < distance q (fst b) then s else b"
  have step: "nearest_from q b (s # ss) = nearest_from q ?b' ss" by simp
  have le: "distance q (fst (nearest_from q ?b' ss)) \<le> distance q (fst ?b')"
    by (rule nearest_from_le_best)
  from Cons.prems consider "t = b" | "t = s" | "t \<in> set ss" by auto
  then show ?case
  proof cases
    case 1
    then show ?thesis using le unfolding step by (auto split: if_splits)
  next
    case 2
    then show ?thesis using le unfolding step by (auto split: if_splits)
  next
    case 3
    then have "t \<in> set (?b' # ss)" by simp
    then show ?thesis unfolding step by (rule Cons.IH)
  qed
qed

lemma reals_map_Num: "reals (map Num xs) = Some xs"
  by (induction xs) simp_all

text \<open>
  C1. For a non-empty set of source points and any query points, all with numbers for
  coordinates, the resampler returns one value for each query point, and the value at
  position \<open>i\<close> is the value of a source point whose 2D Euclidean distance to query point
  \<open>i\<close> is least among all source points (some one of them when several are equally near).
\<close>

theorem nearest_neighbour_value:
  assumes "length x = length vs" and "length y = length vs" and "vs \<noteq> []"
    and "length qx = length qy"
  shows "\<exists>r. griddata_nearest (map Num x, map Num y) vs (map Num qx, map Num qy) = Inr r
           \<and> length r = length qx
           \<and> (\<forall>i<length qx. \<exists>s\<in>set (zip (zip x y) vs). r ! i = snd s
                 \<and> (\<forall>t\<in>set (zip (zip x y) vs).
                       distance (qx ! i, qy ! i) (fst s) \<le> distance (qx ! i, qy ! i) (fst t)))"
proof -
  from assms(1-3) obtain b ss where S: "zip (zip x y) vs = b # ss"
    by (cases x; cases y; cases vs) auto
  let ?r = "map (\<lambda>q. snd (nearest_from q b ss)) (zip qx qy)"
  have run: "griddata_nearest (map Num x, map Num y) vs (map Num qx, map Num qy) = Inr ?r"
    by (simp add: griddata_nearest_def reals_map_Num S)
  have len: "length ?r = length qx" using assms(4) by simp
  have best: "\<exists>s\<in>set (zip (zip x y) vs). ?r ! i = snd s
                 \<and> (\<forall>t\<in>set (zip (zip x y) vs).
                       distance (qx ! i, qy ! i) (fst s) \<le> distance (qx ! i, qy ! i) (fst t))"
    if "i < length qx" for i
  proof -
    let ?q = "(qx ! i, qy ! i)"
    have "?r ! i = snd (nearest_from ?q b ss)" using that assms(4) by simp
    moreover have "nearest_from ?q b ss \<in> set (zip (zip x y) vs)"
      unfolding S by (rule nearest_from_in)
    moreover have "\<forall>t\<in>set (zip (zip x y) vs).
        distance ?q (fst (nearest_from ?q b ss)) \<le> distance ?q (fst t)"
      unfolding S using nearest_from_least by blast
    ultimately show ?thesis by blast
  qed
  show ?thesis using run len best by blast
qed

theorem nearest_neighbour_value_witness:
  "length [0, 10 :: real] = length [Num 10, Num 20] \<and> length [0, 0 :: real] = length [Num 10, Num 20]
   \<and> [Num 10, Num 20] \<noteq> [] \<and> length [1, 9 :: real] = length [0, 0 :: real]
   \<and> (\<exists>r. griddata_nearest (map Num [0, 10], map Num [0, 0]) [Num 10, Num 20]
              (map Num [1, 9], map Num [0, 0]) = Inr r \<and> length r = 2)"
  using nearest_neighbour_value [of "[0, 10]" "[Num 10, Num 20]" "[0, 0]" "[1, 9]" "[0, 0]"]
  by auto

section \<open>Malformed rows\<close>

text \<open>
  C5, as the specification has it, fails: a source row whose last field is the text \<open>abc\<close>
  is neither rejected nor skipped. The field is read as nan and the run completes with the
  artifacts of the worked example.
\<close>

theorem text_field_counterexample:
  "status (cfd_remesh_temp (disk text_in_z two_queries) args) = Exited 0
   \<and> saved (cfd_remesh_temp (disk text_in_z two_queries) args) =
       [(''fine_coarse_output_with_coordinates.csv'',
         \<lparr>header = Some ''T,x,y,z'',
          rows = [[Num 10, Num 1, Num 0, Num 0], [Num 20, Num 9, Num 0, Num 0]]\<rparr>),
        (''fine_coarse_output_single_column.csv'',
         \<lparr>header = None, rows = [[Num 10], [Num 20]]\<rparr>)]"
proof -
  have a: "3 \<le> length args" and b: "args ! Suc 0 = ''fine.csv''" and c: "args ! 2 = ''coarse.csv''"
    by (simp_all add: args_def)
  have l: "load_source (disk text_in_z two_queries) ''fine.csv''
             = Inr ([Num 0, Num 10], [Num 0, Num 0], [Num 10, Num 20])"
    by (simp add: disk_def text_in_z_def load_source_def genfromtxt_def data_lines_def ragged_def)
  have t4: "transpose [[Num 10, Num 20], [Num 1, Num 9], [Num 0, Num 0], [Num 0, Num 0]]
              = [[Num 10, Num 1, Num 0, Num 0], [Num 20, Num 9, Num 0, Num 0]]"
    by code_simp
  have t1: "transpose [[Num 10, Num 20]] = [[Num 10], [Num 20]]"
    by code_simp
  have n3: "filename3 ''fine.csv'' ''coarse.csv'' = ''fine_coarse_output_with_coordinates.csv''"
    by (simp add: filename3_def)
  have n4: "filename4 ''fine.csv'' ''coarse.csv'' = ''fine_coarse_output_single_column.csv''"
    by (simp add: filename4_def)
  show ?thesis
    using run_completes [of args "disk text_in_z two_queries"
        "[Num 0, Num 10]" "[Num 0, Num 0]" "[Num 10, Num 20]"
        "[Num 1, Num 9]" "[Num 0, Num 0]" "[Num 0, Num 0]" "[Num 10, Num 20]"]
    by (simp add: a b c l load_two_queries nearest_two t4 t1 n3 n4)
qed

lemma load_source_ragged:
  "fs f = Some s \<Longrightarrow> ragged (data_lines 1 s) \<Longrightarrow> load_source fs f = Inl ValueError"
  by (simp add: load_source_def genfromtxt_def)

lemma load_grid_ragged:
  "fs f = Some q \<Longrightarrow> ragged (data_lines 0 q) \<Longrightarrow> load_grid fs f = Inl ValueError"
  by (simp add: load_grid_def genfromtxt_def)

text \<open>
  C5, amended. A file in which some data row has another number of fields than the first
  data row makes the program fail with the \<open>ValueError\<close> of \<open>genfromtxt\<close> and save nothing
  (for the query file: once the source file has loaded).
\<close>

theorem ragged_rows_rejected:
  assumes "3 \<le> length argv" and "fs (argv ! 1) = Some s" and "fs (argv ! 2) = Some q"
    and "ragged (data_lines 1 s)
         \<or> (\<exists>v. load_source fs (argv ! 1) = Inr v) \<and> ragged (data_lines 0 q)"
  shows "status (cfd_remesh_temp fs argv) = Raised ValueError
         \<and> saved (cfd_remesh_temp fs argv) = []"
  using assms(4)
proof
  assume "ragged (data_lines 1 s)"
  with assms(2) have "load_source fs (argv ! 1) = Inl ValueError"
    by (rule load_source_ragged)
  with assms(1) show ?thesis by (simp add: run_source_fails)
next
  assume r: "(\<exists>v. load_source fs (argv ! 1) = Inr v) \<and> ragged (data_lines 0 q)"
  then obtain v where v: "load_source fs (argv ! 1) = Inr v" by blast
  from assms(3) r have "load_grid fs (argv ! 2) = Inl ValueError"
    by (simp add: load_grid_ragged)
  with assms(1) v show ?thesis by (simp add: run_grid_fails)
qed

theorem ragged_rows_rejected_witness:
  "3 \<le> length args \<and> disk short_row two_queries (args ! 1) = Some short_row
   \<and> disk short_row two_queries (args ! 2) = Some two_queries
   \<and> ragged (data_lines 1 short_row)
   \<and> status (cfd_remesh_temp (disk short_row two_queries) args) = Raised ValueError
   \<and> saved (cfd_remesh_temp (disk short_row two_queries) args) = []"
proof -
  have a: "3 \<le> length args" by (simp add: args_def)
  have b: "disk short_row two_queries (args ! 1) = Some short_row"
    by (simp add: args_def disk_def)
  have c: "disk short_row two_queries (args ! 2) = Some two_queries"
    by (simp add: args_def disk_def)
  have d: "ragged (data_lines 1 short_row)"
    by (simp add: ragged_def data_lines_def short_row_def)
  show ?thesis
    using a b c d ragged_rows_rejected [of args "disk short_row two_queries" short_row two_queries]
    by simp
qed

section \<open>Loading, in closed form\<close>

lemma column_squeeze:
  "column (squeeze M) k =
     (if 2 \<le> length M \<and> \<not> list_all (\<lambda>r. length r = 1) M \<and> list_all (\<lambda>r. k < length r) M
      then Inr (map (\<lambda>r. r ! k) M) else Inl IndexError)"
  by (induction M rule: squeeze.induct) auto

lemma column_loaded:
  "column (squeeze (map (map to_float) rs)) k =
     (if sliceable k rs then Inr (col k rs) else Inl IndexError)"
  by (auto simp: column_squeeze sliceable_def col_def list_all_iff)

lemma load_source_eq:
  assumes "fs f = Some t"
  shows "load_source fs f =
           (if ragged (data_lines 1 t) then Inl ValueError
            else if sliceable 1 (data_lines 1 t) \<and> sliceable 2 (data_lines 1 t)
                    \<and> sliceable 0 (data_lines 1 t)
            then Inr (col 1 (data_lines 1 t), col 2 (data_lines 1 t), col 0 (data_lines 1 t))
            else Inl IndexError)"
  using assms by (simp add: load_source_def genfromtxt_def column_loaded)

lemma load_grid_eq:
  assumes "fs f = Some t"
  shows "load_grid fs f =
           (if ragged (data_lines 0 t) then Inl ValueError
            else if sliceable 0 (data_lines 0 t) \<and> sliceable 1 (data_lines 0 t)
                    \<and> sliceable 2 (data_lines 0 t)
            then Inr (col 0 (data_lines 0 t), col 1 (data_lines 0 t), col 2 (data_lines 0 t))
            else Inl IndexError)"
  using assms by (simp add: load_grid_def genfromtxt_def column_loaded)

lemma rectangular_sliceable:
  assumes "rectangular rs" and "k < 3"
  shows "sliceable k rs"
proof -
  from assms(1) have n: "2 \<le> length rs" and w: "3 \<le> length (hd rs)"
    and same: "\<forall>r\<in>set rs. length r = length (hd rs)"
    by (simp_all add: rectangular_def ragged_def list_all_iff)
  have wide: "3 \<le> length r" if "r \<in> set rs" for r
    using that w same by metis
  from n have h: "hd rs \<in> set rs" by (cases rs) simp_all
  from w have "length (hd rs) \<noteq> 1" by simp
  with h have "\<exists>r\<in>set rs. length r \<noteq> 1" by (rule rev_bexI)
  moreover have "\<forall>r\<in>set rs. k < length r"
    using wide assms(2) by fastforce
  ultimately show ?thesis
    using n by (simp add: sliceable_def list_all_iff)
qed

lemma reals_numbers:
  "list_all (\<lambda>v. v \<noteq> NaN) vs \<Longrightarrow> \<exists>xs. reals vs = Some xs \<and> length xs = length vs"
proof (induction vs)
  case Nil
  show ?case by simp
next
  case (Cons v vs)
  then obtain xs where "reals vs = Some xs" "length xs = length vs" by auto
  with Cons.prems show ?case by (cases v) auto
qed

lemma reals_col:
  "numeric_at k rs \<Longrightarrow> \<exists>xs. reals (col k rs) = Some xs \<and> length xs = length rs"
  using reals_numbers [of "col k rs"]
  by (simp add: numeric_at_def col_def list_all_iff)

lemma griddata_nearest_runs:
  assumes "reals px = Some x" and "reals py = Some y"
    and "reals pqx = Some qx" and "reals pqy = Some qy"
    and "x \<noteq> []" and "y \<noteq> []" and "vs \<noteq> []" and "length qx = length qy"
  shows "\<exists>r. griddata_nearest (px, py) vs (pqx, pqy) = Inr r \<and> length r = length qx"
proof -
  from assms(5-7) obtain b ss where "zip (zip x y) vs = b # ss"
    by (cases x; cases y; cases vs) auto
  with assms(1-4,8) show ?thesis by (simp add: griddata_nearest_def)
qed

lemma transpose4:
  assumes "length a = n" and "length b = n" and "length c = n" and "length d = n"
  shows "transpose [a, b, c, d] = map (\<lambda>i. [a ! i, b ! i, c ! i, d ! i]) [0..<n]"
proof -
  have "transpose [a, b, c, d] =
          map (\<lambda>i. map (\<lambda>j. [a, b, c, d] ! j ! i) [0..<length [a, b, c, d]]) [0..<n]"
  proof (rule transpose_rectangle)
    show "[a, b, c, d] = [] \<Longrightarrow> n = 0" by simp
    show "length ([a, b, c, d] ! i) = n" if "i < length [a, b, c, d]" for i
      using that assms by (auto simp: nth_Cons')
  qed
  then show ?thesis by simp
qed

lemma transpose1: "transpose [a] = map (\<lambda>i. [a ! i]) [0..<length a]"
proof -
  have "transpose [a] = map (\<lambda>i. map (\<lambda>j. [a] ! j ! i) [0..<length [a]]) [0..<length a]"
    by (rule transpose_rectangle) simp_all
  then show ?thesis by simp
qed

section \<open>Rows of the artifacts\<close>

text \<open>
  C2, as the specification has it, fails for a query set of size 0: with the source rows of
  the worked example and a query file without rows the run ends in \<open>IndexError\<close> and there
  is no artifact at all.
\<close>

theorem no_artifact_for_empty_query_counterexample:
  "length (data_lines 0 []) = 0
   \<and> status (cfd_remesh_temp (disk two_sources []) args) = Raised IndexError
   \<and> length (saved (cfd_remesh_temp (disk two_sources []) args)) = 0"
proof -
  have a: "3 \<le> length args" and b: "args ! Suc 0 = ''fine.csv''" and c: "args ! 2 = ''coarse.csv''"
    by (simp_all add: args_def)
  have "load_grid (disk two_sources []) ''coarse.csv'' = Inl IndexError"
    by (simp add: disk_def load_grid_no_rows data_lines_def)
  then show ?thesis
    using run_grid_fails [of args "disk two_sources []" _ IndexError]
    by (simp add: a b c load_two_sources data_lines_def)
qed

text \<open>
  C2, amended. When each file has at least two data rows, all of one length of at least
  three fields, and the x and y fields of both files are numbers, the run ends with status
  0 and saves exactly two artifacts; each has as many data rows as the query file, \<open>n\<close>;
  row \<open>i\<close> of the first is the resampled value \<open>temp2 ! i\<close> followed by the x, y and z of
  query row \<open>i\<close>, row \<open>i\<close> of the second is \<open>temp2 ! i\<close> alone, where \<open>temp2\<close> is what
  the resampler returns for the source columns and the query columns.
\<close>

theorem rows_follow_query_points:
  assumes "3 \<le> length argv" and "fs (argv ! 1) = Some s" and "fs (argv ! 2) = Some q"
    and "S = data_lines 1 s" and "Q = data_lines 0 q"
    and "rectangular S" and "numeric_at 1 S" and "numeric_at 2 S"
    and "rectangular Q" and "numeric_at 0 Q" and "numeric_at 1 Q"
  shows "\<exists>temp2.
           griddata_nearest (col 1 S, col 2 S) (col 0 S) (col 0 Q, col 1 Q) = Inr temp2
           \<and> length temp2 = length Q
           \<and> status (cfd_remesh_temp fs argv) = Exited 0
           \<and> saved (cfd_remesh_temp fs argv) =
               [(filename3 (argv ! 1) (argv ! 2),
                 \<lparr>header = Some ''T,x,y,z'',
                  rows = map (\<lambda>i. [temp2 ! i, to_float (Q ! i ! 0), to_float (Q ! i ! 1),
                                     to_float (Q ! i ! 2)]) [0..<length Q]\<rparr>),
                (filename4 (argv ! 1) (argv ! 2),
                 \<lparr>header = None, rows = map (\<lambda>i. [temp2 ! i]) [0..<length Q]\<rparr>)]"
proof -
  have ls: "load_source fs (argv ! 1) = Inr (col 1 S, col 2 S, col 0 S)"
    using assms(2,4,6) by (simp add: load_source_eq rectangular_sliceable rectangular_def)
  have lg: "load_grid fs (argv ! 2) = Inr (col 0 Q, col 1 Q, col 2 Q)"
    using assms(3,5,9) by (simp add: load_grid_eq rectangular_sliceable rectangular_def)
  obtain x y qx qy where r:
    "reals (col 1 S) = Some x" "length x = length S"
    "reals (col 2 S) = Some y" "length y = length S"
    "reals (col 0 Q) = Some qx" "length qx = length Q"
    "reals (col 1 Q) = Some qy" "length qy = length Q"
    using reals_col [OF assms(7)] reals_col [OF assms(8)]
      reals_col [OF assms(10)] reals_col [OF assms(11)] by blast
  have "2 \<le> length S" using assms(6) by (simp add: rectangular_def)
  then have ne: "x \<noteq> []" "y \<noteq> []" "col 0 S \<noteq> []"
    using r(2,4) by (auto simp: col_def)
  obtain temp2 where g:
    "griddata_nearest (col 1 S, col 2 S) (col 0 S) (col 0 Q, col 1 Q) = Inr temp2"
    and len: "length temp2 = length Q"
    using griddata_nearest_runs [OF r(1) r(3) r(5) r(7) ne] r(6,8) by auto
  have run: "cfd_remesh_temp fs argv =
       \<lparr>status = Exited 0, stdout = banner (argv ! 1) (argv ! 2),
        opened = [argv ! 1, argv ! 2],
        saved = [(filename3 (argv ! 1) (argv ! 2),
                  \<lparr>header = Some ''T,x,y,z'',
                   rows = transpose [temp2, col 0 Q, col 1 Q, col 2 Q]\<rparr>),
                 (filename4 (argv ! 1) (argv ! 2),
                  \<lparr>header = None, rows = transpose [temp2]\<rparr>)]\<rparr>"
    using assms(1) ls lg g by (rule run_completes)
  have t4: "transpose [temp2, col 0 Q, col 1 Q, col 2 Q] =
              map (\<lambda>i. [temp2 ! i, to_float (Q ! i ! 0), to_float (Q ! i ! 1),
                         to_float (Q ! i ! 2)]) [0..<length Q]"
  proof -
    have "transpose [temp2, col 0 Q, col 1 Q, col 2 Q] =
            map (\<lambda>i. [temp2 ! i, col 0 Q ! i, col 1 Q ! i, col 2 Q ! i]) [0..<length Q]"
      by (rule transpose4) (simp_all add: len col_def)
    also have "\<dots> = map (\<lambda>i. [temp2 ! i, to_float (Q ! i ! 0), to_float (Q ! i ! 1),
                         to_float (Q ! i ! 2)]) [0..<length Q]"
      by (rule map_cong) (simp_all add: col_def)
    finally show ?thesis .
  qed
  have t1: "transpose [temp2] = map (\<lambda>i. [temp2 ! i]) [0..<length Q]"
    using len by (simp add: transpose1)
  show ?thesis unfolding run t4 t1 using g len by simp
qed

theorem rows_follow_query_points_witness:
  "3 \<le> length args
   \<and> disk two_sources two_queries (args ! 1) = Some two_sources
   \<and> disk two_sources two_queries (args ! 2) = Some two_queries
   \<and> rectangular (data_lines 1 two_sources)
   \<and> numeric_at 1 (data_lines 1 two_sources) \<and> numeric_at 2 (data_lines 1 two_sources)
   \<and> rectangular (data_lines 0 two_queries)
   \<and> numeric_at 0 (data_lines 0 two_queries) \<and> numeric_at 1 (data_lines 0 two_queries)
   \<and> status (cfd_remesh_temp (disk two_sources two_queries) args) = Exited 0
   \<and> map (\<lambda>a. length (rows (snd a))) (saved (cfd_remesh_temp (disk two_sources two_queries) args))
       = [2, 2]"
proof -
  have a: "3 \<le> length args" by (simp add: args_def)
  have b: "disk two_sources two_queries (args ! 1) = Some two_sources"
    by (simp add: args_def disk_def)
  have c: "disk two_sources two_queries (args ! 2) = Some two_queries"
    by (simp add: args_def disk_def)
  have S: "data_lines 1 two_sources = [[Lit 10, Lit 0, Lit 0, Lit 0], [Lit 20, Lit 10, Lit 0, Lit 0]]"
    by (simp add: data_lines_def two_sources_def)
  have Q: "data_lines 0 two_queries = [[Lit 1, Lit 0, Lit 0], [Lit 9, Lit 0, Lit 0]]"
    by (simp add: data_lines_def two_queries_def)
  have d: "rectangular (data_lines 1 two_sources)"
    and e: "numeric_at 1 (data_lines 1 two_sources)"
    and f: "numeric_at 2 (data_lines 1 two_sources)"
    unfolding S by (simp_all add: rectangular_def ragged_def numeric_at_def)
  have g: "rectangular (data_lines 0 two_queries)"
    and h: "numeric_at 0 (data_lines 0 two_queries)"
    and i: "numeric_at 1 (data_lines 0 two_queries)"
    unfolding Q by (simp_all add: rectangular_def ragged_def numeric_at_def)
  have n: "length (data_lines 0 two_queries) = 2" unfolding Q by simp
  from rows_follow_query_points [OF a b c refl refl d e f g h i]
  have "status (cfd_remesh_temp (disk two_sources two_queries) args) = Exited 0
        \<and> map (\<lambda>a. length (rows (snd a)))
             (saved (cfd_remesh_temp (disk two_sources two_queries) args)) = [2, 2]"
    unfolding n by auto
  with a b c d e f g h i show ?thesis by simp
qed

section \<open>The z column of the source\<close>

lemma same_but_z_data_lines:
  "same_but_z t t' \<Longrightarrow> same_but_z (data_lines n t) (data_lines n t')"
proof -
  have keep: "list_all2 (\<lambda>r r'. r[3 := Text []] = r'[3 := Text []])
                (filter (\<lambda>r. r \<noteq> []) xs) (filter (\<lambda>r. r \<noteq> []) ys)"
    if "list_all2 (\<lambda>r r'. r[3 := Text []] = r'[3 := Text []]) xs ys" for xs ys
    using that
  proof (induction rule: list_all2_induct)
    case Nil
    show ?case by simp
  next
    case (Cons x xs y ys)
    from Cons.hyps(1) have "length (x[3 := Text []]) = length (y[3 := Text []])" by simp
    then have "x = [] \<longleftrightarrow> y = []" by (cases x; cases y) simp_all
    with Cons show ?case by simp
  qed
  assume "same_but_z t t'"
  then have "list_all2 (\<lambda>r r'. r[3 := Text []] = r'[3 := Text []]) (drop n t) (drop n t')"
    unfolding same_but_z_def by (rule list_all2_dropI)
  then show ?thesis
    unfolding same_but_z_def data_lines_def by (rule keep)
qed

lemma same_but_z_lengths: "same_but_z rs rs' \<Longrightarrow> map length rs = map length rs'"
  unfolding same_but_z_def
proof (induction rule: list_all2_induct)
  case Nil
  show ?case by simp
next
  case (Cons x xs y ys)
  from Cons.hyps(1) have "length (x[3 := Text []]) = length (y[3 := Text []])" by simp
  with Cons.IH show ?case by simp
qed

lemma same_but_z_col: "same_but_z rs rs' \<Longrightarrow> k \<noteq> 3 \<Longrightarrow> col k rs = col k rs'"
  unfolding same_but_z_def
proof (induction rule: list_all2_induct)
  case Nil
  show ?case by (simp add: col_def)
next
  case (Cons x xs y ys)
  have "x ! k = x[3 := Text []] ! k" using Cons.prems by simp
  also have "\<dots> = y[3 := Text []] ! k" using Cons.hyps(1) by simp
  also have "\<dots> = y ! k" using Cons.prems by simp
  finally show ?case using Cons.IH Cons.prems by (simp add: col_def)
qed

lemma ragged_lengths: "map length rs = map length rs' \<Longrightarrow> ragged rs = ragged rs'"
proof (cases rs)
  case Nil
  then show "map length rs = map length rs' \<Longrightarrow> ?thesis" by simp
next
  case (Cons r rs0)
  assume eq: "map length rs = map length rs'"
  with Cons obtain r' rs0' where rs': "rs' = r' # rs0'" by (cases rs') auto
  from eq Cons rs' have l: "length r = length r'" and m: "map length rs0 = map length rs0'"
    by simp_all
  have "list_all (\<lambda>x. length x = c) rs0 = list_all (\<lambda>n. n = c) (map length rs0)" for c
    by (simp add: list.pred_map comp_def)
  moreover have "list_all (\<lambda>x. length x = c) rs0' = list_all (\<lambda>n. n = c) (map length rs0')" for c
    by (simp add: list.pred_map comp_def)
  ultimately show ?thesis using l m by (simp add: ragged_def Cons rs')
qed

lemma sliceable_lengths: "map length rs = map length rs' \<Longrightarrow> sliceable k rs = sliceable k rs'"
proof -
  assume eq: "map length rs = map length rs'"
  have p: "list_all (\<lambda>x. P (length x)) xs = list_all P (map length xs)"
    for P and xs :: "csv_field list list"
    by (simp add: list.pred_map comp_def)
  from eq have "length rs = length rs'" by (rule map_eq_imp_length_eq)
  then show ?thesis
    unfolding sliceable_def p [of "\<lambda>n. n = 1"] p [of "\<lambda>n. k < n"] eq by simp
qed

lemma load_source_same_but_z:
  assumes "fs f = Some t" and "same_but_z t t'"
  shows "load_source (fs(f \<mapsto> t')) f = load_source fs f"
proof -
  let ?rs = "data_lines 1 t" and ?rs' = "data_lines 1 t'"
  have z: "same_but_z ?rs ?rs'" using assms(2) by (rule same_but_z_data_lines)
  then have l: "map length ?rs = map length ?rs'" by (rule same_but_z_lengths)
  have "ragged ?rs = ragged ?rs'" using l by (rule ragged_lengths)
  moreover have "sliceable k ?rs = sliceable k ?rs'" for k using l by (rule sliceable_lengths)
  moreover have "col 0 ?rs = col 0 ?rs'" "col 1 ?rs = col 1 ?rs'" "col 2 ?rs = col 2 ?rs'"
    using z by (simp_all add: same_but_z_col)
  moreover have "(fs(f \<mapsto> t')) f = Some t'" by simp
  ultimately show ?thesis using assms(1) by (simp add: load_source_eq)
qed

lemma load_grid_other_file:
  "f \<noteq> g \<Longrightarrow> load_grid (fs(f \<mapsto> t')) g = load_grid fs g"
  by (simp add: load_grid_def genfromtxt_def)

text \<open>
  C10. Two runs whose source files differ only in the fourth field (z) of their lines,
  with the query file a different file and unchanged, have the same outcome: the same
  status, console lines and artifacts.
\<close>

theorem source_z_is_ignored:
  assumes "fs (argv ! 1) = Some t" and "same_but_z t t'" and "argv ! 1 \<noteq> argv ! 2"
  shows "cfd_remesh_temp (fs(argv ! 1 \<mapsto> t')) argv = cfd_remesh_temp fs argv"
proof -
  have ls: "load_source (fs(argv ! 1 \<mapsto> t')) (argv ! 1) = load_source fs (argv ! 1)"
    using assms(1,2) by (rule load_source_same_but_z)
  have lg: "load_grid (fs(argv ! 1 \<mapsto> t')) (argv ! 2) = load_grid fs (argv ! 2)"
    using assms(3) by (rule load_grid_other_file)
  show ?thesis
    unfolding cfd_remesh_temp_def Let_def ls lg by (rule refl)
qed

theorem source_z_is_ignored_witness:
  "disk two_sources two_queries (args ! 1) = Some two_sources
   \<and> same_but_z two_sources other_z \<and> args ! 1 \<noteq> args ! 2
   \<and> cfd_remesh_temp ((disk two_sources two_queries)(args ! 1 \<mapsto> other_z)) args
       = cfd_remesh_temp (disk two_sources two_queries) args"
proof -
  have a: "disk two_sources two_queries (args ! 1) = Some two_sources"
    by (simp add: args_def disk_def)
  have b: "same_but_z two_sources other_z"
    by (simp add: same_but_z_def two_sources_def other_z_def eval_nat_numeral)
  have c: "args ! 1 \<noteq> args ! 2" by (simp add: args_def)
  show ?thesis
    using a b c source_z_is_ignored [of "disk two_sources two_queries" args two_sources other_z]
    by simp
qed

end
